theory Spec2Isabelle
  imports Main
begin

section \<open>Data model of \<open>scripts/mt_to_vcf.py\<close>\<close>

text \<open>
  The script works on Hail tables. A matrix table has one row per site, keyed by locus and
  allele list, one column per sample, and one entry per row and sample. Of an entry the
  script reads the genotype call \<open>GT\<close> and the depth \<open>DP\<close>; either may be missing (Hail's
  NA), which is \<open>None\<close> here. Table schemas are static in Hail (a reference to a field the
  table does not have is rejected when the expression is built), so the fields the script
  reads or writes are record fields. Whatever else the table holds, for the library
  routines to read, is kept under its name in \<open>globals\<close>, \<open>col_fields\<close>, \<open>row_fields\<close>
  and \<open>entry_fields\<close>, as values of a type \<open>'x\<close> the script never looks into. The two
  row fields the script writes, \<open>site_dp\<close> and \<open>ANS\<close>, are not among the \<open>row_fields\<close>
  of an input. Hail adds 32-bit depths up in 64 bits, which no number of samples a table can
  hold overflows; the aggregated numbers are \<open>int\<close> here.
\<close>

record locus =
  contig :: string
  position :: int

datatype call = Call (phased: bool) (call_alleles: "nat list")

record 'x entry =
  GT :: "call option"
  DP :: "int option"
  entry_fields :: "(string \<times> 'x) list"

record 'x col =
  sample :: string
  col_fields :: "(string \<times> 'x) list"

record 'x mt_row =
  locus :: locus
  alleles :: "string list"
  row_fields :: "(string \<times> 'x) list"
  entries :: "'x entry list"

text \<open>Rows after \<open>annotate_rows(site_dp=...)\<close> and after \<open>annotate_rows(ANS=...)\<close>.\<close>

record 'x dp_row = "'x mt_row" +
  site_dp :: int

record 'x tagged_row = "'x dp_row" +
  ANS :: int

record ('x, 'r) matrix_table =
  globals :: "(string \<times> 'x) list"
  cols :: "'x col list"
  rows :: "'r list"

type_synonym row_key = "locus \<times> string list"

definition row_key :: "('x, 'm) mt_row_scheme \<Rightarrow> row_key" where
  "row_key r = (locus r, alleles r)"

text \<open>
  A value of an \<open>info\<close> field: missing, a number, or a value of the aggregator's own
  (arrays, floats, strings), which the script never looks into. A struct is the list of its
  named fields, in order.
\<close>

datatype 'x hval = NA | Num int | Ext 'x

type_synonym 'x struct = "(string \<times> 'x hval) list"

record 'x ht_row =
  ht_locus :: locus
  ht_alleles :: "string list"
  info :: "'x struct"
  ht_fields :: "(string \<times> 'x) list"

record 'x table =
  ht_globals :: "(string \<times> 'x) list"
  ht_rows :: "'x ht_row list"

definition ht_key :: "'x ht_row \<Rightarrow> row_key" where
  "ht_key h = (ht_locus h, ht_alleles h)"

section \<open>The Hail expressions the script uses\<close>

text \<open>\<open>hl.is_defined\<close> is never missing; \<open>CallExpression.is_non_ref\<close> of a missing call is
  missing, and of a call it says whether some allele index is not 0.\<close>

definition is_defined :: "'a option \<Rightarrow> bool option" where
  "is_defined x = Some (x \<noteq> None)"

definition is_non_ref :: "call option \<Rightarrow> bool option" where
  "is_non_ref g = map_option (\<lambda>c. list_ex (\<lambda>a. 0 < a) (call_alleles c)) g"

text \<open>\<open>hl.len\<close>, \<open>>\<close> and \<open>&\<close> on possibly missing values; \<open>&\<close> is three-valued.\<close>

definition hl_len :: "'a list \<Rightarrow> int option" where
  "hl_len xs = Some (int (length xs))"

definition hl_gt :: "int option \<Rightarrow> int \<Rightarrow> bool option" where
  "hl_gt x n = map_option (\<lambda>v. n < v) x"

fun hl_and :: "bool option \<Rightarrow> bool option \<Rightarrow> bool option" where
  "hl_and (Some False) _ = Some False"
| "hl_and _ (Some False) = Some False"
| "hl_and (Some True) (Some True) = Some True"
| "hl_and _ _ = None"

text \<open>
  The aggregators run over the entries of one row. \<open>hl.agg.sum\<close> skips missing values and
  is 0 over no values; \<open>hl.agg.count_where\<close> is the sum of the condition as 0 or 1;
  \<open>hl.agg.any\<close> is \<open>count_where > 0\<close>.
\<close>

definition agg_sum :: "int option list \<Rightarrow> int" where
  "agg_sum xs = sum_list (List.map_filter id xs)"

definition agg_count_where :: "bool option list \<Rightarrow> int" where
  "agg_count_where bs = agg_sum (map (map_option (\<lambda>b. if b then 1 else 0)) bs)"

definition agg_any :: "bool option list \<Rightarrow> bool" where
  "agg_any bs = (0 < agg_count_where bs)"

text \<open>\<open>MatrixTable.filter_rows\<close> keeps the rows whose condition is true; a row whose
  condition is missing is removed.\<close>

definition filter_rows ::
    "('r \<Rightarrow> bool option) \<Rightarrow> ('x, 'r) matrix_table \<Rightarrow> ('x, 'r) matrix_table" where
  "filter_rows c mt = mt\<lparr>rows := filter (\<lambda>r. c r = Some True) (rows mt)\<rparr>"

text \<open>\<open>MatrixTable.annotate_rows\<close>: every row gets the new field; \<open>f\<close> makes the row
  with the field from the row without.\<close>

definition annotate_rows :: "('r \<Rightarrow> 's) \<Rightarrow> ('x, 'r) matrix_table \<Rightarrow> ('x, 's) matrix_table" where
  "annotate_rows f mt = \<lparr>globals = globals mt, cols = cols mt, rows = map f (rows mt)\<rparr>"

text \<open>\<open>StructExpression.annotate\<close> with one field: an existing field of that name is
  replaced where it stands, a new one is added at the end.\<close>

fun annotate :: "'x struct \<Rightarrow> string \<Rightarrow> 'x hval \<Rightarrow> 'x struct" where
  "annotate [] k v = [(k, v)]"
| "annotate ((k', v') # s) k v =
     (if k' = k then (k, v) # s else (k', v') # annotate s k v)"

definition field :: "'x struct \<Rightarrow> string \<Rightarrow> 'x hval option" where
  "field s k = map_of s k"

text \<open>\<open>mt.rows()[key]\<close>: the row of that key, missing when there is none.\<close>

definition rows_index :: "('x, ('x, 'm) mt_row_scheme) matrix_table \<Rightarrow> row_key
    \<Rightarrow> ('x, 'm) mt_row_scheme option" where
  "rows_index mt k = find (\<lambda>r. row_key r = k) (rows mt)"

section \<open>The library routines the script delegates to\<close>

text \<open>
  \<open>hl.experimental.densify\<close>, gnomAD's \<open>default_compute_info\<close> and
  \<open>adjust_vcf_incompatible_types\<close> are not part of the script; the model takes them as
  given functions. \<open>default_compute_info\<close> receives the tagged matrix table, the flag
  \<open>site_annotations\<close> and the partition count. \<open>file_exists\<close> is the state of the file
  system, \<open>hl.read_matrix_table\<close> gives the table stored at a path, or fails, and
  \<open>hl.export_vcf\<close> writes or fails.
\<close>

record 'x library =
  densify :: "('x, 'x mt_row) matrix_table \<Rightarrow> ('x, 'x mt_row) matrix_table"
  default_compute_info :: "('x, 'x tagged_row) matrix_table \<Rightarrow> bool \<Rightarrow> int \<Rightarrow> 'x table"
  adjust_vcf_incompatible_types :: "'x table \<Rightarrow> 'x table"
  file_exists :: "string \<Rightarrow> bool"
  read_matrix_table :: "string \<Rightarrow> ('x, 'x mt_row) matrix_table option"
  export_vcf :: "'x table \<Rightarrow> string \<Rightarrow> bool"

section \<open>The pipeline\<close>

definition keep_row :: "'x mt_row \<Rightarrow> bool option" where
  "keep_row r =
     hl_and (hl_gt (hl_len (alleles r)) 1)
            (Some (agg_any (map (\<lambda>e. is_non_ref (GT e)) (entries r))))"

definition add_site_dp :: "'x mt_row \<Rightarrow> 'x dp_row" where
  "add_site_dp r =
     \<lparr>locus = locus r, alleles = alleles r, row_fields = row_fields r, entries = entries r,
      site_dp = agg_sum (map DP (entries r))\<rparr>"

definition add_ANS :: "'x dp_row \<Rightarrow> 'x tagged_row" where
  "add_ANS r =
     \<lparr>locus = locus r, alleles = alleles r, row_fields = row_fields r, entries = entries r,
      site_dp = site_dp r,
      ANS = agg_count_where (map (\<lambda>e. is_defined (GT e)) (entries r)) * 2\<rparr>"

definition filter_rows_and_add_tags ::
    "'x library \<Rightarrow> ('x, 'x mt_row) matrix_table \<Rightarrow> ('x, 'x tagged_row) matrix_table" where
  "filter_rows_and_add_tags lib mt0 =
     (let mt1 = densify lib mt0;
          mt2 = filter_rows keep_row mt1;
          mt3 = annotate_rows add_site_dp mt2
      in annotate_rows add_ANS mt3)"

text \<open>\<open>Table.annotate\<close> with a new value for the field \<open>info\<close> of every row.\<close>

definition annotate_info :: "('x ht_row \<Rightarrow> 'x struct) \<Rightarrow> 'x table \<Rightarrow> 'x table" where
  "annotate_info f ht = ht\<lparr>ht_rows := map (\<lambda>h. h\<lparr>info := f h\<rparr>) (ht_rows ht)\<rparr>"

definition create_info_ht ::
    "'x library \<Rightarrow> ('x, 'x tagged_row) matrix_table \<Rightarrow> int \<Rightarrow> 'x table" where
  "create_info_ht lib mt n_partitions =
     (let info_ht = default_compute_info lib mt True n_partitions
      in annotate_info
           (\<lambda>h. annotate (info h) ''DP''
                  (case rows_index mt (ht_key h) of
                     None \<Rightarrow> NA
                   | Some r \<Rightarrow> Num (site_dp r))) info_ht)"

definition mt_to_sites_only_ht ::
    "'x library \<Rightarrow> ('x, 'x mt_row) matrix_table \<Rightarrow> int \<Rightarrow> 'x table" where
  "mt_to_sites_only_ht lib mt n_partitions =
     (let mt' = filter_rows_and_add_tags lib mt;
          ht = create_info_ht lib mt' n_partitions
      in adjust_vcf_incompatible_types lib ht)"

section \<open>The command line\<close>

datatype error = UsageError | HailError

text \<open>What a run does to the world, in order: the Hail session it starts, the table it
  loads, the file it writes. Log lines are left out.\<close>

datatype 'x event =
    InitHail string "string option"
  | ReadMatrixTable string
  | ExportVcf "'x table" string

record cli_args =
  opt_mt :: "string option"
  opt_o :: "string option"
  opt_local_tmp_dir :: "string option"
  opt_overwrite :: bool
  opt_hail_billing :: "string option"
  opt_n_partitions :: "int option"

definition endswith :: "string \<Rightarrow> string \<Rightarrow> bool" where
  "endswith s suf = (length suf \<le> length s \<and> drop (length s - length suf) s = suf)"

text \<open>Modelled from the spec: \<open>get_validation_callback\<close> is imported from
  \<open>joint_calling.utils\<close>, which is not among the sources. The spec says of it: "path
  existence and extension are checked before invoking the pipeline; failure reports a usage
  error and aborts before any computation".\<close>

definition get_validation_callback ::
    "string \<Rightarrow> bool \<Rightarrow> (string \<Rightarrow> bool) \<Rightarrow> string \<Rightarrow> error + string" where
  "get_validation_callback ext must_exist exists_at v =
     (if \<not> endswith v (''.'' @ ext) then Inl UsageError
      else if must_exist \<and> \<not> exists_at v then Inl UsageError
      else Inr v)"

text \<open>The functions return what they did, as events, and their result; an error of the
  library is not caught and ends the run.\<close>

definition export_sites_only_vcf ::
    "'x library \<Rightarrow> ('x, 'x mt_row) matrix_table \<Rightarrow> string \<Rightarrow> int
     \<Rightarrow> 'x event list \<times> (error + string)" where
  "export_sites_only_vcf lib mt output_path n_partitions =
     (let ht = mt_to_sites_only_ht lib mt n_partitions
      in ([ExportVcf ht output_path],
          if export_vcf lib ht output_path then Inr output_path else Inl HailError))"

text \<open>The body of \<open>main\<close>, with the six parameters the source gives it.\<close>

definition main ::
    "'x library \<Rightarrow> string \<Rightarrow> string \<Rightarrow> string option \<Rightarrow> bool \<Rightarrow> string option \<Rightarrow> int
     \<Rightarrow> 'x event list \<times> (error + unit)" where
  "main lib mt_path output_path local_tmp_dir overwrite hail_billing n_partitions =
     (let started = [InitHail ''variant_qc'' local_tmp_dir, ReadMatrixTable mt_path]
      in case read_matrix_table lib mt_path of
           None \<Rightarrow> (started, Inl HailError)
         | Some mt \<Rightarrow>
             (case export_sites_only_vcf lib mt output_path n_partitions of
                (written, res) \<Rightarrow>
                  (started @ written, case res of Inl e \<Rightarrow> Inl e | Inr _ \<Rightarrow> Inr ())))"

text \<open>The \<open>click\<close> command around \<open>main\<close>: the options are read and checked first
  (\<open>--mt\<close> and \<open>-o\<close> are required, \<open>--mt\<close> goes through the validation callback,
  \<open>--n-partitions\<close> defaults to 5000), and only then is the body called.\<close>

definition command :: "'x library \<Rightarrow> cli_args \<Rightarrow> 'x event list \<times> (error + unit)" where
  "command lib args =
     (case opt_mt args of
        None \<Rightarrow> ([], Inl UsageError)
      | Some v \<Rightarrow>
          (case get_validation_callback ''mt'' True (file_exists lib) v of
             Inl e \<Rightarrow> ([], Inl e)
           | Inr mt_path \<Rightarrow>
               (case opt_o args of
                  None \<Rightarrow> ([], Inl UsageError)
                | Some output_path \<Rightarrow>
                    main lib mt_path output_path (opt_local_tmp_dir args)
                      (opt_overwrite args) (opt_hail_billing args)
                      (case opt_n_partitions args of None \<Rightarrow> 5000 | Some n \<Rightarrow> n))))"

section \<open>What the claims speak of\<close>

text \<open>The input row a tagged row was made from: the row without the two tags.\<close>

definition untagged :: "('x, 'm) mt_row_scheme \<Rightarrow> 'x mt_row" where
  "untagged r =
     \<lparr>locus = locus r, alleles = alleles r, row_fields = row_fields r, entries = entries r\<rparr>"




definition two_samples :: "'x col list" where
  "two_samples =
     [\<lparr>sample = ''sample1'', col_fields = []\<rparr>, \<lparr>sample = ''sample2'', col_fields = []\<rparr>]"


section \<open>A small data set and library to run the model on\<close>

text \<open>
  The three sites of the comment in the source and of the specification: a deletion one
  sample carries, the site the deletion spans (two alleles, no call defined), and a site with
  the reference allele only. The aggregator of the example reports a depth of its own, 0,
  and copies \<open>ANS\<close>; the adjuster caps numbers at the largest 32-bit integer.
\<close>

definition site_deletion :: "unit mt_row" where
  "site_deletion =
     \<lparr>locus = \<lparr>contig = ''chr1'', position = 1\<rparr>, alleles = [''GCT'', ''G''], row_fields = [],
      entries = [\<lparr>GT = Some (Call False [0, 1]), DP = Some 10, entry_fields = []\<rparr>,
                 \<lparr>GT = Some (Call False [0, 0]), DP = None, entry_fields = []\<rparr>]\<rparr>"

definition site_spanned :: "unit mt_row" where
  "site_spanned =
     \<lparr>locus = \<lparr>contig = ''chr1'', position = 3\<rparr>, alleles = [''T'', ''*''], row_fields = [],
      entries = [\<lparr>GT = None, DP = Some 5, entry_fields = []\<rparr>,
                 \<lparr>GT = None, DP = None, entry_fields = []\<rparr>]\<rparr>"

definition site_reference :: "unit mt_row" where
  "site_reference =
     \<lparr>locus = \<lparr>contig = ''chr1'', position = 7\<rparr>, alleles = [''C''], row_fields = [],
      entries = [\<lparr>GT = Some (Call False [0, 0]), DP = Some 7, entry_fields = []\<rparr>,
                 \<lparr>GT = Some (Call False [0, 0]), DP = Some 8, entry_fields = []\<rparr>]\<rparr>"

definition example_mt :: "(unit, unit mt_row) matrix_table" where
  "example_mt =
     \<lparr>globals = [], cols = two_samples, rows = [site_deletion, site_spanned, site_reference]\<rparr>"

definition example_compute_info ::
    "(unit, unit tagged_row) matrix_table \<Rightarrow> bool \<Rightarrow> int \<Rightarrow> unit table" where
  "example_compute_info mt site_annotations n =
     \<lparr>ht_globals = globals mt,
      ht_rows =
        map (\<lambda>r. \<lparr>ht_locus = locus r, ht_alleles = alleles r,
                  info = [(''AC'', Ext ()), (''DP'', Num 0), (''ANS'', Num (ANS r))],
                  ht_fields = [(''lowqual'', ())]\<rparr>) (rows mt)\<rparr>"

definition cap_int32 :: "unit hval \<Rightarrow> unit hval" where
  "cap_int32 v = (case v of Num i \<Rightarrow> Num (min i 2147483647) | _ \<Rightarrow> v)"

definition example_adjust :: "unit table \<Rightarrow> unit table" where
  "example_adjust ht =
     annotate_info (\<lambda>h. map (\<lambda>(k, v). (k, cap_int32 v)) (info h)) ht"

definition example_lib :: "unit library" where
  "example_lib =
     \<lparr>densify = (\<lambda>mt. mt), default_compute_info = example_compute_info,
      adjust_vcf_incompatible_types = example_adjust,
      file_exists = (\<lambda>p. p = ''cohort.mt''),
      read_matrix_table = (\<lambda>p. if p = ''cohort.mt'' then Some example_mt else None),
      export_vcf = (\<lambda>ht p. True)\<rparr>"

definition example_output :: "unit table" where
  "example_output =
     \<lparr>ht_globals = [],
      ht_rows =
        [\<lparr>ht_locus = \<lparr>contig = ''chr1'', position = 1\<rparr>, ht_alleles = [''GCT'', ''G''],
          info = [(''AC'', Ext ()), (''DP'', Num 10), (''ANS'', Num 4)],
          ht_fields = [(''lowqual'', ())]\<rparr>]\<rparr>"

definition args_wrong_extension :: cli_args where
  "args_wrong_extension =
     \<lparr>opt_mt = Some ''cohort.vcf'', opt_o = Some ''sites.vcf.bgz'', opt_local_tmp_dir = None,
      opt_overwrite = False, opt_hail_billing = None, opt_n_partitions = None\<rparr>"

definition args_valid :: cli_args where
  "args_valid =
     \<lparr>opt_mt = Some ''cohort.mt'', opt_o = Some ''sites.vcf.bgz'', opt_local_tmp_dir = None,
      opt_overwrite = False, opt_hail_billing = None, opt_n_partitions = None\<rparr>"

section \<open>Lemmas on the aggregators and the struct operations\<close>

lemma agg_sum_Nil: "agg_sum [] = 0" by (simp add: agg_sum_def)

lemma agg_sum_Cons: "agg_sum (x # xs) = (case x of None \<Rightarrow> 0 | Some d \<Rightarrow> d) + agg_sum xs"
  by (cases x) (simp_all add: agg_sum_def)


lemma agg_count_where_length:
  "agg_count_where bs = int (length (filter (\<lambda>b. b = Some True) bs))"
proof (induction bs)
  case Nil
  show ?case by (simp add: agg_count_where_def agg_sum_Nil)
next
  case (Cons b bs)
  then show ?case
    by (cases b) (auto simp: agg_count_where_def agg_sum_Cons)
qed

lemma agg_any_iff: "agg_any bs \<longleftrightarrow> Some True \<in> set bs"
proof -
  have "0 < length (filter (\<lambda>b. b = Some True) bs) \<longleftrightarrow> Some True \<in> set bs"
    by (induction bs) auto
  then show ?thesis by (simp add: agg_any_def agg_count_where_length)
qed

lemma is_non_ref_iff:
  "is_non_ref g = Some True \<longleftrightarrow> (\<exists>c. g = Some c \<and> (\<exists>a \<in> set (call_alleles c). 0 < a))"
  by (cases g) (auto simp: is_non_ref_def list_ex_iff)

lemma hl_and_Some_True: "hl_and (Some a) (Some b) = Some True \<longleftrightarrow> a \<and> b"
  by (cases a; cases b) simp_all

lemma agg_any_non_ref:
  "agg_any (map (\<lambda>e. is_non_ref (GT e)) es) \<longleftrightarrow>
     (\<exists>e \<in> set es. \<exists>c. GT e = Some c \<and> (\<exists>a \<in> set (call_alleles c). 0 < a))"
proof -
  have "Some True \<in> set (map (\<lambda>e. is_non_ref (GT e)) es) \<longleftrightarrow>
      (\<exists>e \<in> set es. is_non_ref (GT e) = Some True)"
    by force
  then show ?thesis by (simp only: agg_any_iff is_non_ref_iff)
qed

lemma count_defined:
  "agg_count_where (map (\<lambda>e. is_defined (GT e)) es) =
     int (length (filter (\<lambda>e. GT e \<noteq> None) es))"
  by (simp add: agg_count_where_length filter_map o_def is_defined_def)


lemma field_annotate_other: "f \<noteq> k \<Longrightarrow> field (annotate s k v) f = field s f"
  by (induction s) (auto simp: field_def)

lemma filter_annotate:
  "filter (\<lambda>p. fst p \<noteq> k) (annotate s k v) = filter (\<lambda>p. fst p \<noteq> k) s"
  by (induction s) auto



section \<open>Lemmas on the pipeline\<close>

lemma keep_row_iff:
  "keep_row r = Some True \<longleftrightarrow>
     1 < length (alleles r) \<and>
     (\<exists>e \<in> set (entries r). \<exists>c. GT e = Some c \<and> (\<exists>a \<in> set (call_alleles c). 0 < a))"
  unfolding keep_row_def hl_len_def hl_gt_def option.map hl_and_Some_True agg_any_non_ref
  by simp

lemma rows_tagged:
  "rows (filter_rows_and_add_tags lib mt) =
     map (\<lambda>r. add_ANS (add_site_dp r))
       (filter (\<lambda>r. keep_row r = Some True) (rows (densify lib mt)))"
  by (simp add: filter_rows_and_add_tags_def filter_rows_def annotate_rows_def Let_def)

lemma untagged_add: "untagged (add_ANS (add_site_dp r)) = r"
  by (simp add: untagged_def add_ANS_def add_site_dp_def)

lemma untagged_rows:
  "map untagged (rows (filter_rows_and_add_tags lib mt)) =
     filter (\<lambda>r. keep_row r = Some True) (rows (densify lib mt))"
  by (simp add: rows_tagged o_def untagged_add)

lemma tagged_row_origin:
  assumes "r \<in> set (rows (filter_rows_and_add_tags lib mt))"
  obtains r0 where "r0 \<in> set (rows (densify lib mt))" and "keep_row r0 = Some True"
    and "r = add_ANS (add_site_dp r0)"
  using assms by (auto simp: rows_tagged)

lemma tagged_row_fields:
  "entries (add_ANS (add_site_dp r0)) = entries r0"
  "locus (add_ANS (add_site_dp r0)) = locus r0"
  "alleles (add_ANS (add_site_dp r0)) = alleles r0"
  "site_dp (add_ANS (add_site_dp r0)) = agg_sum (map DP (entries r0))"
  "ANS (add_ANS (add_site_dp r0)) =
     agg_count_where (map (\<lambda>e. is_defined (GT e)) (entries r0)) * 2"
  by (simp_all add: add_ANS_def add_site_dp_def)





section \<open>The example, evaluated\<close>

lemmas example_defs = example_lib_def example_mt_def site_deletion_def site_spanned_def
  site_reference_def example_compute_info_def example_adjust_def

lemmas eval_tags = tagged_row_fields agg_count_where_def is_defined_def agg_sum_Cons
  agg_sum_Nil row_key_def ht_key_def field_def rows_index_def

lemma example_lib_fields:
  "densify example_lib = (\<lambda>mt. mt)"
  "default_compute_info example_lib = example_compute_info"
  "adjust_vcf_incompatible_types example_lib = example_adjust"
  "file_exists example_lib = (\<lambda>p. p = ''cohort.mt'')"
  "read_matrix_table example_lib = (\<lambda>p. if p = ''cohort.mt'' then Some example_mt else None)"
  "export_vcf example_lib = (\<lambda>ht p. True)"
  by (simp_all add: example_lib_def)

lemma example_tagged:
  "rows (filter_rows_and_add_tags example_lib example_mt) = [add_ANS (add_site_dp site_deletion)]"
  by (simp add: rows_tagged keep_row_iff example_defs)

lemma example_globals:
  "globals (filter_rows_and_add_tags example_lib example_mt) = []"
  by (simp add: filter_rows_and_add_tags_def filter_rows_def annotate_rows_def Let_def
      example_lib_fields example_mt_def)

lemma example_tags:
  "site_dp (add_ANS (add_site_dp site_deletion)) = 10"
  "ANS (add_ANS (add_site_dp site_deletion)) = 4"
  "row_key (add_ANS (add_site_dp site_deletion)) =
     (\<lparr>contig = ''chr1'', position = 1\<rparr>, [''GCT'', ''G''])"
  "entries (add_ANS (add_site_dp site_deletion)) = entries site_deletion"
  by (simp_all add: tagged_row_fields agg_count_where_def is_defined_def agg_sum_Cons
      agg_sum_Nil site_deletion_def row_key_def)

lemma example_info_ht:
  "create_info_ht example_lib (filter_rows_and_add_tags example_lib example_mt) n = example_output"
  by (simp add: create_info_ht_def annotate_info_def example_tagged example_globals
      example_lib_fields example_compute_info_def example_output_def eval_tags
      site_deletion_def)

lemma example_adjust_output: "example_adjust example_output = example_output"
  by (simp add: example_adjust_def annotate_info_def example_output_def cap_int32_def)

lemma example_sites_only:
  "mt_to_sites_only_ht example_lib example_mt n = example_output"
  by (simp add: mt_to_sites_only_ht_def example_info_ht example_lib_fields
      example_adjust_output)

section \<open>The row filter\<close>

text \<open>
  Claim C1. The rows that leave the row filter are, up to the two tags, exactly the rows of
  the densified table whose allele list is longer than one and in which some sample has a
  defined call with an allele other than the reference. In particular a row with a single
  allele is dropped, and so is a row with several alleles whose calls are all undefined.
\<close>

theorem row_filter_keeps_non_ref_sites:
  "untagged ` set (rows (filter_rows_and_add_tags lib mt)) =
     {r \<in> set (rows (densify lib mt)).
        1 < length (alleles r) \<and>
        (\<exists>e \<in> set (entries r). \<exists>c. GT e = Some c \<and> (\<exists>a \<in> set (call_alleles c). 0 < a))}
   \<and> (\<forall>r \<in> set (rows (densify lib mt)).
        length (alleles r) = 1 \<longrightarrow> r \<notin> untagged ` set (rows (filter_rows_and_add_tags lib mt)))
   \<and> (\<forall>r \<in> set (rows (densify lib mt)).
        1 < length (alleles r) \<and> (\<forall>e \<in> set (entries r). GT e = None) \<longrightarrow>
        r \<notin> untagged ` set (rows (filter_rows_and_add_tags lib mt)))"
proof -
  have "untagged ` set (rows (filter_rows_and_add_tags lib mt)) =
      set (map untagged (rows (filter_rows_and_add_tags lib mt)))"
    by simp
  also have "\<dots> = {r \<in> set (rows (densify lib mt)). keep_row r = Some True}"
    by (simp only: untagged_rows set_filter)
  finally have eq: "untagged ` set (rows (filter_rows_and_add_tags lib mt)) =
      {r \<in> set (rows (densify lib mt)). keep_row r = Some True}" .
  show ?thesis
    unfolding eq keep_row_iff by auto
qed

theorem row_filter_keeps_non_ref_sites_witness:
  "site_deletion \<in> untagged ` set (rows (filter_rows_and_add_tags example_lib example_mt))
   \<and> site_reference \<in> set (rows (densify example_lib example_mt))
   \<and> length (alleles site_reference) = 1
   \<and> site_reference \<notin> untagged ` set (rows (filter_rows_and_add_tags example_lib example_mt))
   \<and> site_spanned \<in> set (rows (densify example_lib example_mt))
   \<and> 1 < length (alleles site_spanned) \<and> map GT (entries site_spanned) = [None, None]
   \<and> site_spanned \<notin> untagged ` set (rows (filter_rows_and_add_tags example_lib example_mt))"
  using row_filter_keeps_non_ref_sites [of example_lib example_mt]
  by (simp add: example_defs)

section \<open>The tags\<close>

text \<open>
  Claim C3. On every row that leaves the row filter, \<open>ANS\<close> is twice the number of samples
  whose genotype call is defined in that row.
\<close>

theorem ANS_twice_defined_calls:
  assumes "r \<in> set (rows (filter_rows_and_add_tags lib mt))"
  shows "ANS r = 2 * int (length (filter (\<lambda>e. GT e \<noteq> None) (entries r)))"
proof -
  from assms obtain r0 where "r = add_ANS (add_site_dp r0)"
    by (rule tagged_row_origin)
  then show ?thesis
    by (simp add: tagged_row_fields count_defined)
qed

theorem ANS_twice_defined_calls_witness:
  "add_ANS (add_site_dp site_deletion) \<in> set (rows (filter_rows_and_add_tags example_lib example_mt))
   \<and> length (filter (\<lambda>e. GT e \<noteq> None) (entries (add_ANS (add_site_dp site_deletion)))) = 2
   \<and> ANS (add_ANS (add_site_dp site_deletion)) = 4"
  using ANS_twice_defined_calls [of "add_ANS (add_site_dp site_deletion)" example_lib example_mt]
  by (simp add: example_tagged tagged_row_fields site_deletion_def)

text \<open>
  Claim C10. On every row that leaves the row filter, \<open>ANS\<close> is at least 2: the filter
  asks for a sample with a defined call, and each defined call counts twice.
\<close>

theorem ANS_at_least_two:
  assumes "r \<in> set (rows (filter_rows_and_add_tags lib mt))"
  shows "2 \<le> ANS r"
proof -
  from assms obtain r0 where keep: "keep_row r0 = Some True"
    and r: "r = add_ANS (add_site_dp r0)"
    by (rule tagged_row_origin)
  from keep obtain e where "e \<in> set (entries r0)" and "GT e \<noteq> None"
    unfolding keep_row_iff by auto
  then have "filter (\<lambda>e. GT e \<noteq> None) (entries r0) \<noteq> []"
    by (auto simp: filter_empty_conv)
  then have "1 \<le> length (filter (\<lambda>e. GT e \<noteq> None) (entries r0))"
    by (cases "filter (\<lambda>e. GT e \<noteq> None) (entries r0)") simp_all
  then show ?thesis
    unfolding r tagged_row_fields count_defined by simp
qed

theorem ANS_at_least_two_witness:
  "add_ANS (add_site_dp site_deletion) \<in> set (rows (filter_rows_and_add_tags example_lib example_mt))
   \<and> 2 \<le> ANS (add_ANS (add_site_dp site_deletion))"
  using ANS_at_least_two [of "add_ANS (add_site_dp site_deletion)" example_lib example_mt]
  by (simp add: example_tagged)

section \<open>The depth in the info table\<close>



text \<open>
  Claim C7. Writing \<open>DP\<close> into the aggregator's table changes nothing else: the globals
  stay, the rows, in their order, keep their keys and their fields other than \<open>info\<close>, and
  \<open>info\<close> keeps every field other than \<open>DP\<close>, in its place and with its value.
\<close>

theorem DP_overwrite_frame:
  "ht_globals (create_info_ht lib mt n) = ht_globals (default_compute_info lib mt True n)
   \<and> map ht_key (ht_rows (create_info_ht lib mt n)) =
       map ht_key (ht_rows (default_compute_info lib mt True n))
   \<and> map ht_fields (ht_rows (create_info_ht lib mt n)) =
       map ht_fields (ht_rows (default_compute_info lib mt True n))
   \<and> map (\<lambda>h. filter (\<lambda>p. fst p \<noteq> ''DP'') (info h)) (ht_rows (create_info_ht lib mt n)) =
       map (\<lambda>h. filter (\<lambda>p. fst p \<noteq> ''DP'') (info h))
         (ht_rows (default_compute_info lib mt True n))
   \<and> (\<forall>i < length (ht_rows (default_compute_info lib mt True n)). \<forall>f. f \<noteq> ''DP'' \<longrightarrow>
         field (info (ht_rows (create_info_ht lib mt n) ! i)) f =
         field (info (ht_rows (default_compute_info lib mt True n) ! i)) f)"
  by (simp add: create_info_ht_def annotate_info_def Let_def ht_key_def filter_annotate
      field_annotate_other o_def)

theorem DP_overwrite_frame_witness:
  "length (ht_rows (default_compute_info example_lib
             (filter_rows_and_add_tags example_lib example_mt) True 5000)) = 1
   \<and> field (info (ht_rows (default_compute_info example_lib
                     (filter_rows_and_add_tags example_lib example_mt) True 5000) ! 0)) ''ANS''
       = Some (Num 4)
   \<and> field (info (ht_rows (create_info_ht example_lib
                     (filter_rows_and_add_tags example_lib example_mt) 5000) ! 0)) ''ANS''
       = Some (Num 4)
   \<and> map ht_fields (ht_rows (create_info_ht example_lib
                     (filter_rows_and_add_tags example_lib example_mt) 5000))
       = [ [(''lowqual'', ())] ]"
  using DP_overwrite_frame [of example_lib "filter_rows_and_add_tags example_lib example_mt" 5000]
  by (simp add: example_lib_fields example_compute_info_def example_tagged example_tags field_def)

section \<open>The scenario with two samples\<close>



section \<open>The partition count\<close>



section \<open>Validation and the options the body does not read\<close>

text \<open>
  Claim C8. The path given with \<open>--mt\<close> is checked for the extension \<open>.mt\<close> and for
  existence before anything runs: when the check fails the command ends with a usage error
  and has done nothing, and whenever the command has done anything the path had passed the
  check.
\<close>

theorem validation_before_pipeline:
  "(opt_mt args = Some p \<and> \<not> (endswith p ''.mt'' \<and> file_exists lib p) \<longrightarrow>
      command lib args = ([], Inl UsageError))
   \<and> (fst (command lib args) \<noteq> [] \<longrightarrow>
      (\<exists>q. opt_mt args = Some q \<and> endswith q ''.mt'' \<and> file_exists lib q))"
  by (auto simp: command_def get_validation_callback_def split: option.splits)

theorem validation_before_pipeline_witness:
  "opt_mt args_wrong_extension = Some ''cohort.vcf''
   \<and> \<not> (endswith ''cohort.vcf'' ''.mt'' \<and> file_exists example_lib ''cohort.vcf'')
   \<and> command example_lib args_wrong_extension = ([], Inl UsageError)
   \<and> fst (command example_lib args_valid) \<noteq> []
   \<and> opt_mt args_valid = Some ''cohort.mt'' \<and> endswith ''cohort.mt'' ''.mt''
   \<and> file_exists example_lib ''cohort.mt''"
proof -
  have bad: "opt_mt args_wrong_extension = Some ''cohort.vcf''
      \<and> \<not> (endswith ''cohort.vcf'' ''.mt'' \<and> file_exists example_lib ''cohort.vcf'')"
    by (simp add: args_wrong_extension_def endswith_def)
  have good: "opt_mt args_valid = Some ''cohort.mt'' \<and> endswith ''cohort.mt'' ''.mt''
      \<and> file_exists example_lib ''cohort.mt''"
    by (simp add: args_valid_def endswith_def example_lib_fields)
  have ran: "fst (command example_lib args_valid) \<noteq> []"
    by (simp add: command_def main_def get_validation_callback_def args_valid_def endswith_def
        example_lib_fields split: prod.splits)
  from validation_before_pipeline [of args_wrong_extension "''cohort.vcf''" example_lib] bad
  have "command example_lib args_wrong_extension = ([], Inl UsageError)"
    by blast
  with bad good ran show ?thesis by simp
qed

text \<open>
  Claim C9. Neither \<open>--overwrite/--reuse\<close> nor \<open>--hail-billing\<close> reaches the
  transformation: with the other arguments fixed, the run does the same and writes the same
  table for any values of the two.
\<close>

theorem unused_options:
  "main lib mt_path output_path local_tmp_dir overwrite hail_billing n =
     main lib mt_path output_path local_tmp_dir overwrite' hail_billing' n
   \<and> command lib (args\<lparr>opt_overwrite := overwrite', opt_hail_billing := hail_billing'\<rparr>) =
     command lib args"
  by (simp add: main_def command_def split: option.splits sum.splits)

theorem unused_options_witness:
  "command example_lib (args_valid\<lparr>opt_overwrite := True, opt_hail_billing := Some ''project''\<rparr>) =
     command example_lib args_valid
   \<and> snd (command example_lib args_valid) = Inr ()
   \<and> fst (command example_lib args_valid) =
       [InitHail ''variant_qc'' None, ReadMatrixTable ''cohort.mt'',
        ExportVcf example_output ''sites.vcf.bgz'']"
proof -
  have "command example_lib args_valid =
      ([InitHail ''variant_qc'' None, ReadMatrixTable ''cohort.mt'',
        ExportVcf example_output ''sites.vcf.bgz''], Inr ())"
    by (simp add: command_def main_def get_validation_callback_def args_valid_def endswith_def
        export_sites_only_vcf_def example_sites_only example_lib_fields)
  with unused_options [of example_lib _ _ _ _ _ _ True "Some ''project''" args_valid]
  show ?thesis by simp
qed

end
